theory Spec2Isabelle
  imports Main
begin

section \<open>The request engine of package api (api/client.go)\<close>

text \<open>
  The development embeds the request builder \<open>R\<close>, the execution engine
  \<open>R.Response\<close> / \<open>R.Do\<close> and the session operations \<open>Client.Close\<close>,
  \<open>Client.Info\<close> and \<open>Client.GetBlob\<close> of \<open>api/client.go\<close>.

  Go pointers to the shared \<open>Client\<close> become explicit state passing: every operation
  that reads or writes the client takes it and returns it. Strings are byte lists.
\<close>

subsection \<open>Errors\<close>

text \<open>
  Modelled from the spec: \<open>models.Error\<close> (package \<open>models\<close> is not part of the
  sources at hand). It is the descriptor's accumulated validation error: every recorded
  error appends a message, and the value contains an error as soon as one message is
  recorded.
\<close>

record Error =
  Model :: string
  Key :: string
  Type :: string
  Messages :: "string list"
  Code :: int

text \<open>A Go \<open>error\<close> value: a \<open>*models.Error\<close> or any other error, kept as its text.\<close>

datatype GoError = ModelsErr Error | PlainErr string

text \<open>Modelled from the spec: \<open>Error.Errorf\<close>, applied to the formatted message.\<close>

definition Errorf :: "Error \<Rightarrow> string \<Rightarrow> Error" where
  "Errorf e msg = e\<lparr>Messages := Messages e @ [msg]\<rparr>"

text \<open>
  Modelled from the spec: \<open>Error.AddError\<close>. A nil error adds nothing, a
  \<open>*models.Error\<close> adds its messages, any other error adds its text.
\<close>

fun AddError :: "Error \<Rightarrow> GoError option \<Rightarrow> Error" where
  "AddError e None = e"
| "AddError e (Some (ModelsErr other)) = e\<lparr>Messages := Messages e @ Messages other\<rparr>"
| "AddError e (Some (PlainErr s)) = Errorf e s"

text \<open>Modelled from the spec: \<open>Error.ContainsError\<close> and \<open>Error.HasError\<close>.\<close>

definition ContainsError :: "Error \<Rightarrow> bool" where
  "ContainsError e = (Messages e \<noteq> [])"

definition HasError :: "Error \<Rightarrow> GoError option" where
  "HasError e = (if ContainsError e then Some (ModelsErr e) else None)"

subsection \<open>Library functions the source calls\<close>

text \<open>
  Functions of the Go standard library whose results the source only passes on are
  parameters, collected in one record.
\<close>

record URL =
  Raw :: string
  RawQuery :: string

record Lib =
  pathJoin :: "string list \<Rightarrow> string"
  ParseRequestURI :: "string \<Rightarrow> string + URL"
  localProxySocket :: string
  valuesEncode :: "(string \<rightharpoonup> string list) \<Rightarrow> string"
  urlString :: "URL \<Rightarrow> string"
  NewRequest :: "string \<Rightarrow> string \<Rightarrow> string option"
  base64Encode :: "string \<Rightarrow> string"
  StatusText :: "int \<Rightarrow> string"
  ParseMediaType :: "string \<Rightarrow> string"
  unicodeToLower :: "string \<Rightarrow> string"
  unicodeTitle :: "string \<Rightarrow> string"

text \<open>
  \<open>strings.ToLower\<close> and \<open>strings.Title\<close>. On a string of ASCII bytes both work
  byte by byte, as written out below (\<open>isSeparator\<close> is the ASCII part of the
  library's function of that name). On any other string they decode UTF-8 and use the
  Unicode case tables: there they are the parameters \<open>unicodeToLower\<close> and
  \<open>unicodeTitle\<close> of the library record.
\<close>

definition isASCII :: "string \<Rightarrow> bool" where
  "isASCII s = list_all (\<lambda>ch. (of_char ch :: nat) \<le> 127) s"

definition isUpper :: "char \<Rightarrow> bool" where
  "isUpper ch = (let n = (of_char ch :: nat) in 65 \<le> n \<and> n \<le> 90)"

definition isLower :: "char \<Rightarrow> bool" where
  "isLower ch = (let n = (of_char ch :: nat) in 97 \<le> n \<and> n \<le> 122)"

definition isDigit :: "char \<Rightarrow> bool" where
  "isDigit ch = (let n = (of_char ch :: nat) in 48 \<le> n \<and> n \<le> 57)"

definition lowerByte :: "char \<Rightarrow> char" where
  "lowerByte ch = (if isUpper ch then char_of ((of_char ch :: nat) + 32) else ch)"

definition upperByte :: "char \<Rightarrow> char" where
  "upperByte ch = (if isLower ch then char_of ((of_char ch :: nat) - 32) else ch)"

definition lowerASCII :: "string \<Rightarrow> string" where
  "lowerASCII s = map lowerByte s"

definition ToLower :: "Lib \<Rightarrow> string \<Rightarrow> string" where
  "ToLower lib s = (if isASCII s then lowerASCII s else unicodeToLower lib s)"

definition isSeparator :: "char \<Rightarrow> bool" where
  "isSeparator ch = (\<not> (isDigit ch \<or> isLower ch \<or> isUpper ch \<or> ch = CHR ''_''))"

fun TitleFrom :: "char \<Rightarrow> string \<Rightarrow> string" where
  "TitleFrom prev [] = []"
| "TitleFrom prev (ch # s) =
     (if isSeparator prev then upperByte ch else ch) # TitleFrom ch s"

definition titleASCII :: "string \<Rightarrow> string" where
  "titleASCII s = TitleFrom CHR '' '' s"

definition Title :: "Lib \<Rightarrow> string \<Rightarrow> string" where
  "Title lib s = (if isASCII s then titleASCII s else unicodeTitle lib s)"

definition Contains :: "string \<Rightarrow> char \<Rightarrow> bool" where
  "Contains s ch = (ch \<in> set s)"

subsection \<open>Client and request descriptor\<close>

text \<open>
  Modelled from the spec: \<open>models.Info\<close>, the cached server information
  (architecture, OS, address, optional static-file port).
\<close>

record Info =
  Arch :: string
  Os :: string
  Address :: string
  FilePort :: int

definition emptyInfo :: Info where
  "emptyInfo = \<lparr>Arch = [], Os = [], Address = [], FilePort = 0\<rparr>"

text \<open>The state of the channel \<open>closer\<close>: nil, made and open, or closed.\<close>

datatype Chan = NilChan | OpenChan | ClosedChan

record Client =
  RoundTripTimeout :: int
  endpoint :: string
  username :: string
  password :: string
  neverProxy :: bool
  token :: "string option"
  closer :: Chan
  closed :: bool
  clientTraceLvl :: string
  clientTraceToken :: string
  info :: "nat option"
  urlProxy :: string

text \<open>
  A non-nil \<open>io.Reader\<close> used as the body of a request: one that is not an
  \<open>io.ReadSeeker\<close>, or one that is. The field \<open>body\<close> is \<open>None\<close> for
  a nil body.
\<close>

datatype Reader = PlainReader string | ReadSeeker string

datatype Context = Background | WithDeadline Context int | CallerContext nat

type_synonym Header = "(string \<times> string) list"

text \<open>
  \<open>http.Header.Add\<close> appends a value under a key; the model keeps the pairs in the
  order they were added, with the keys as they were passed (every key the source passes
  itself is in the canonical form \<open>net/http\<close> would turn it into).
\<close>

definition headerAdd :: "Header \<Rightarrow> string \<Rightarrow> string \<Rightarrow> Header" where
  "headerAdd h k v = h @ [(k, v)]"

definition headerGet :: "Header \<Rightarrow> string \<Rightarrow> string" where
  "headerGet h k = (case map_of h k of None \<Rightarrow> [] | Some v \<Rightarrow> v)"

definition headerSet :: "Header \<Rightarrow> string \<Rightarrow> string \<Rightarrow> Header" where
  "headerSet h k v = filter (\<lambda>p. fst p \<noteq> k) h @ [(k, v)]"

text \<open>
  What the source reads of an \<open>http.Response\<close>: \<open>bodyErr\<close> is the error that
  reading the body ends with, if it does not end with EOF.
\<close>

record Response =
  StatusCode :: int
  respHeader :: Header
  respBody :: string
  bodyErr :: "string option"
  ContentLength :: int

record Request =
  reqMethod :: string
  reqURL :: string
  reqHeader :: Header

record R =
  httpMethod :: string
  uri :: "URL option"
  header :: Header
  body :: "Reader option"
  httpReq :: "Request option"
  Resp :: "Response option"
  err :: Error
  paranoid :: bool
  noRetry :: bool
  traceLvl :: string
  traceToken :: string
  proxy :: string
  params :: "string \<rightharpoonup> string list"
  ctx :: Context
  eTag :: string

definition APIPATH :: string where
  "APIPATH = ''/api/v3''"

definition locallyProxied :: "Lib \<Rightarrow> bool \<Rightarrow> string" where
  "locallyProxied lib np = (if np then [] else localProxySocket lib)"

definition realEndpoint :: "Lib \<Rightarrow> Client \<Rightarrow> string" where
  "realEndpoint lib cl =
     (if locallyProxied lib (neverProxy cl) = [] then endpoint cl else ''http://unix'')"

definition UrlForProxy :: "Lib \<Rightarrow> Client \<Rightarrow> string \<Rightarrow> string list \<Rightarrow> string + URL" where
  "UrlForProxy lib cl prx args =
     (if prx = []
      then ParseRequestURI lib (realEndpoint lib cl @ pathJoin lib [APIPATH, pathJoin lib args])
      else ParseRequestURI lib
             (realEndpoint lib cl @ ''/'' @ prx @ pathJoin lib [APIPATH, pathJoin lib args]))"

definition Req :: "Client \<Rightarrow> R" where
  "Req cl =
     \<lparr>httpMethod = ''GET'', uri = None, header = [], body = None, httpReq = None,
      Resp = None,
      err = \<lparr>Model = [], Key = [], Type = ''CLIENT_ERROR'', Messages = [], Code = 0\<rparr>,
      paranoid = False, noRetry = False,
      traceLvl = clientTraceLvl cl, traceToken = clientTraceToken cl,
      proxy = urlProxy cl, params = Map.empty, ctx = Background, eTag = []\<rparr>"

definition Context :: "Context \<Rightarrow> R \<Rightarrow> R" where
  "Context cx r = r\<lparr>ctx := cx, noRetry := True\<rparr>"

definition Proxy :: "string \<Rightarrow> R \<Rightarrow> R" where
  "Proxy p r = r\<lparr>proxy := p\<rparr>"

definition Trace :: "string \<Rightarrow> R \<Rightarrow> R" where
  "Trace lvl r = r\<lparr>traceLvl := lvl\<rparr>"

definition TraceToken :: "string \<Rightarrow> R \<Rightarrow> R" where
  "TraceToken t r = r\<lparr>traceToken := t\<rparr>"

definition Meth :: "string \<Rightarrow> R \<Rightarrow> R" where
  "Meth v r = r\<lparr>httpMethod := v\<rparr>"

definition Get :: "R \<Rightarrow> R" where
  "Get r = Meth ''GET'' r"

definition Del :: "R \<Rightarrow> R" where
  "Del r = Meth ''DELETE'' r"

definition Head :: "R \<Rightarrow> R" where
  "Head r = Meth ''HEAD'' r"

definition ParanoidPatch :: "R \<Rightarrow> R" where
  "ParanoidPatch r = r\<lparr>paranoid := True\<rparr>"

definition FailFast :: "R \<Rightarrow> R" where
  "FailFast r = r\<lparr>noRetry := True\<rparr>"

definition Wait :: "string \<Rightarrow> string \<Rightarrow> R \<Rightarrow> R" where
  "Wait etag dur r =
     r\<lparr>header := headerAdd (headerAdd (header r) ''If-None-Match'' etag)
                             ''Prefer'' (''wait='' @ dur)\<rparr>"

definition UrlFor :: "Lib \<Rightarrow> Client \<Rightarrow> string list \<Rightarrow> R \<Rightarrow> R" where
  "UrlFor lib cl args r =
     (case UrlForProxy lib cl (proxy r) args of
        Inl e \<Rightarrow> r\<lparr>err := AddError (err r) (Some (PlainErr e))\<rparr>
      | Inr res \<Rightarrow> r\<lparr>uri := Some res\<rparr>)"

definition List :: "Lib \<Rightarrow> Client \<Rightarrow> string \<Rightarrow> R \<Rightarrow> R" where
  "List lib cl prefix r = UrlFor lib cl [prefix] (Get r)"

text \<open>
  A \<open>models.Model\<close> is used through its \<open>Prefix()\<close> and \<open>Key()\<close>, and the
  name \<open>%T\<close> prints for its type.
\<close>

record ModelRef =
  Prefix :: string
  MKey :: string
  TypeName :: string

definition UrlForM :: "Lib \<Rightarrow> Client \<Rightarrow> ModelRef \<Rightarrow> string list \<Rightarrow> R \<Rightarrow> R" where
  "UrlForM lib cl m rest r =
     UrlFor lib cl ([Prefix m, MKey m] @ rest)
       (r\<lparr>err := (err r)\<lparr>Model := Prefix m, Key := MKey m\<rparr>\<rparr>)"

text \<open>
  \<open>url.Values.Set\<close> replaces whatever the key held by the one value.
  \<open>Params\<close> walks the arguments two at a time (\<open>i = 1, 3, ...\<close>).
\<close>

definition valuesSet :: "(string \<rightharpoonup> string list) \<Rightarrow> string \<Rightarrow> string \<Rightarrow> (string \<rightharpoonup> string list)" where
  "valuesSet vs k v = vs(k \<mapsto> [v])"

fun setPairs :: "(string \<rightharpoonup> string list) \<Rightarrow> string list \<Rightarrow> (string \<rightharpoonup> string list)" where
  "setPairs vs (k # v # rest) = setPairs (valuesSet vs k v) rest"
| "setPairs vs _ = vs"

definition Params :: "string list \<Rightarrow> R \<Rightarrow> R" where
  "Params args r =
     (if odd (length args)
      then r\<lparr>err := Errorf (err r) ''Params was not passed an even number of arguments''\<rparr>
      else r\<lparr>params := setPairs (params r) args\<rparr>)"

fun addPairs :: "Header \<Rightarrow> string list \<Rightarrow> Header" where
  "addPairs h (k # v # rest) = addPairs (headerAdd h k v) rest"
| "addPairs h _ = h"

definition Headers :: "string list \<Rightarrow> R \<Rightarrow> R" where
  "Headers args r =
     (if odd (length args)
      then r\<lparr>err := Errorf (err r) ''WithHeaders was not passed an even number of arguments''\<rparr>
      else r\<lparr>header := addPairs (header r) args\<rparr>)"

text \<open>
  The loop of \<open>Filter\<close>: the first argument is what is left of \<open>filterArgs\<close> from
  index \<open>i\<close> on, the second is \<open>finalParams\<close>. It returns the message of the
  \<open>Errorf\<close> before an early return, or the final parameters.
\<close>

definition plainOps :: "string list" where
  "plainOps = [''Eq'', ''Lt'', ''Lte'', ''Gt'', ''Gte'', ''Ne'', ''In'', ''Nin'', ''Re'']"

fun filterLoop :: "Lib \<Rightarrow> string list \<Rightarrow> string list \<Rightarrow> string + string list" where
  "filterLoop lib [] fin = Inr fin"
| "filterLoop lib (f # rest) fin =
     (if f = ''reverse'' \<or> f = ''decode'' then filterLoop lib rest (fin @ [f, ''true''])
      else if f \<in> set [''sort'', ''limit'', ''offset'', ''slim'', ''params''] then
        (case rest of
           [] \<Rightarrow> Inl (''Invalid Filter: '' @ f @ '' requires exactly one parameter'')
         | v # rest1 \<Rightarrow> filterLoop lib rest1 (fin @ [f, v]))
      else
        (case rest of
           [] \<Rightarrow> Inl (''Invalid Filter: '' @ f @ '' requires an op and at least 1 parameter'')
         | o1 # rest1 \<Rightarrow>
             (let op = Title lib (ToLower lib o1) in
              if op \<in> set plainOps then
                (case rest1 of
                   [] \<Rightarrow> Inl (''Invalid Filter: '' @ f @ '' op '' @ op @ '' requires 1 parameter'')
                 | v # rest2 \<Rightarrow> filterLoop lib rest2 (fin @ [f, op @ ''('' @ v @ '')'']))
              else if op = ''Between'' \<or> op = ''Except'' then
                (case rest1 of
                   [] \<Rightarrow> Inl (''Invalid Filter: '' @ f @ '' op '' @ op @ '' requires 1 or 2 parameters'')
                 | v # rest2 \<Rightarrow>
                     if \<not> Contains v CHR '','' then
                       (case rest2 of
                          [] \<Rightarrow> Inl (''Invalid Filter: '' @ f @ '' op '' @ op
                                        @ '' requires 1 or 2 parameters'')
                        | v2 # rest3 \<Rightarrow>
                            filterLoop lib rest3 (fin @ [f, op @ ''('' @ v @ '','' @ v2 @ '')'']))
                     else filterLoop lib rest2 (fin @ [f, op @ ''('' @ v @ '')'']))
              else Inl (''Invalid Filter '' @ f @ '': unknown op '' @ op))))"

definition Filter :: "Lib \<Rightarrow> Client \<Rightarrow> string \<Rightarrow> string list \<Rightarrow> R \<Rightarrow> R" where
  "Filter lib cl prefix filterArgs r =
     (let r1 = UrlFor lib cl [prefix] (Get r) in
      case filterLoop lib filterArgs [] of
        Inl msg \<Rightarrow> r1\<lparr>err := Errorf (err r1) msg\<rparr>
      | Inr finalParams \<Rightarrow> Params finalParams r1)"

text \<open>
  The argument of \<open>Body\<close>, by the case of the type switch it takes: nil, an
  \<open>io.Reader\<close>, a byte slice, or any other value, given as what \<open>json.Marshal\<close>
  returns for it (\<open>Inl\<close> the error).
\<close>

datatype BodyArg = NilArg | ReaderArg Reader | BytesArg string | ObjArg "string + string"

definition Body :: "BodyArg \<Rightarrow> R \<Rightarrow> R" where
  "Body b r =
     (case b of
        NilArg \<Rightarrow> Headers [''Content-Type'', ''application/json''] r
      | ReaderArg obj \<Rightarrow>
          (Headers [''Content-Type'', ''application/octet-stream''] r)\<lparr>body := Some obj\<rparr>
      | BytesArg obj \<Rightarrow>
          (Headers [''Content-Type'', ''application/octet-stream''] r)
            \<lparr>body := Some (ReadSeeker obj)\<rparr>
      | ObjArg m \<Rightarrow>
          (let r1 = Headers [''Content-Type'', ''application/json''] r in
           case m of
             Inl e \<Rightarrow> r1\<lparr>err := AddError (err r1) (Some (PlainErr e))\<rparr>
           | Inr buf \<Rightarrow> r1\<lparr>body := Some (ReadSeeker buf)\<rparr>))"

definition Put :: "BodyArg \<Rightarrow> R \<Rightarrow> R" where
  "Put b r = Body b (Meth ''PUT'' r)"

definition Post :: "BodyArg \<Rightarrow> R \<Rightarrow> R" where
  "Post b r = Body b (Meth ''POST'' r)"

text \<open>A \<open>jsonpatch2.Patch\<close> is not nil, a reader or a byte slice: it is marshalled.\<close>

definition Patch :: "string + string \<Rightarrow> R \<Rightarrow> R" where
  "Patch b r = Body (ObjArg b) (Meth ''PATCH'' r)"

text \<open>
  \<open>PatchObj\<close>: \<open>GenPatch\<close> is a parameter (from the paranoid flag to an error or the
  patch, the patch given as what marshalling it returns).
\<close>

definition PatchObj :: "(bool \<Rightarrow> GoError + (string + string)) \<Rightarrow> R \<Rightarrow> R" where
  "PatchObj gen r =
     (case gen (paranoid r) of
        Inl e \<Rightarrow> r\<lparr>err := AddError (err r) (Some e)\<rparr>
      | Inr b \<Rightarrow> Body (ObjArg b) (Meth ''PATCH'' r))"

definition PatchTo ::
  "Lib \<Rightarrow> Client \<Rightarrow> (bool \<Rightarrow> GoError + (string + string)) \<Rightarrow> ModelRef \<Rightarrow> ModelRef \<Rightarrow> R \<Rightarrow> R"
where
  "PatchTo lib cl gen old new r =
     (if Prefix old \<noteq> Prefix new \<or> MKey old \<noteq> MKey new
      then r\<lparr>err := Errorf ((err r)\<lparr>Model := Prefix old, Key := MKey old\<rparr>)
                        (''Cannot patch from '' @ TypeName old @ '' to '' @ TypeName new
                         @ '', or change keys from '' @ MKey old @ '' to '' @ MKey new)\<rparr>
      else UrlForM lib cl old [] (PatchObj gen r))"

subsection \<open>Closing a client\<close>

text \<open>
  \<open>close(c.closer)\<close> panics on a nil or an already closed channel, before anything
  else is done; \<open>Inl\<close> is the panic.
\<close>

definition Close :: "Client \<Rightarrow> string + Client" where
  "Close cl =
     (case closer cl of
        NilChan \<Rightarrow> Inl ''close of nil channel''
      | ClosedChan \<Rightarrow> Inl ''close of closed channel''
      | OpenChan \<Rightarrow> Inr (cl\<lparr>closer := ClosedChan, closed := True, info := None\<rparr>))"

subsection \<open>Executing a request\<close>

text \<open>
  The world outside of the descriptor. \<open>transport w n req\<close> is what the \<open>n\<close>-th call of
  \<open>http.Client.Do\<close> returns for \<open>req\<close> (\<open>Inl\<close> a transport error), \<open>rewinds w n\<close>
  says that the \<open>Seek(0, io.SeekStart)\<close> after that call returns \<open>(0, nil)\<close>, and
  \<open>closedDuring w n\<close> that another goroutine calls \<open>Close\<close> while that call is in
  flight. \<open>events\<close> records every round trip with the request sent and every
  \<open>time.Sleep\<close> with its seconds, in order. \<open>heap\<close> holds the \<open>models.Info\<close>
  objects the client's \<open>info\<close> pointer can refer to.
\<close>

datatype Event = RoundTrip Request | Sleep nat

record World =
  transport :: "nat \<Rightarrow> Request \<Rightarrow> string + Response"
  rewinds :: "nat \<Rightarrow> bool"
  closedDuring :: "nat \<Rightarrow> bool"
  calls :: nat
  events :: "Event list"
  heap :: "nat \<Rightarrow> Info"
  allocs :: nat

definition interfere :: "World \<Rightarrow> nat \<Rightarrow> Client \<Rightarrow> Client" where
  "interfere w n cl =
     (if closedDuring w n then (case Close cl of Inl _ \<Rightarrow> cl | Inr cl1 \<Rightarrow> cl1) else cl)"

definition Token :: "Client \<Rightarrow> string" where
  "Token cl = (case token cl of None \<Rightarrow> [] | Some t \<Rightarrow> t)"

definition Authorize :: "Lib \<Rightarrow> Client \<Rightarrow> Header \<Rightarrow> Header" where
  "Authorize lib cl h =
     (if headerGet h ''Authorization'' = []
      then (if Token cl \<noteq> []
            then headerSet h ''Authorization'' (''Bearer '' @ Token cl)
            else headerSet h ''Authorization''
                   (''Basic '' @ base64Encode lib (username cl @ '':'' @ password cl)))
      else h)"

definition timeouts :: "nat list" where
  "timeouts = [1, 1, 2, 3, 5, 8]"

text \<open>
  How one iteration of the retry loop of \<open>Response\<close> ends: with one of its
  \<open>return nil, r.err\<close>, with \<open>break\<close>, or at its end (or \<open>continue\<close>) after
  the sleep; the last two carry the \<open>resp, err\<close> of the attempt.
\<close>

datatype Iter =
    Return R Client World
  | Break "string + Response" R Client World
  | Continue "string + Response" R Client World

text \<open>
  The body of the loop for the wait \<open>waitFor\<close>; \<open>u\<close> is the URL \<open>r.uri\<close> points
  to. \<open>req.Header = r.header\<close> shares the map, so \<open>Authorize\<close> writes to the
  descriptor's header.
\<close>

definition iteration :: "Lib \<Rightarrow> URL \<Rightarrow> nat \<Rightarrow> R \<Rightarrow> Client \<Rightarrow> World \<Rightarrow> Iter" where
  "iteration lib u waitFor r cl w =
     (case NewRequest lib (httpMethod r) (urlString lib u) of
        Some e \<Rightarrow> Return (r\<lparr>err := AddError (err r) (Some (PlainErr e))\<rparr>) cl w
      | None \<Rightarrow>
          (let h = Authorize lib cl (header r);
               req = \<lparr>reqMethod = httpMethod r, reqURL = urlString lib u, reqHeader = h\<rparr>;
               r1 = r\<lparr>header := h, httpReq := Some req\<rparr>;
               res = transport w (calls w) req;
               cl1 = interfere w (calls w) cl;
               w1 = w\<lparr>calls := Suc (calls w), events := events w @ [RoundTrip req]\<rparr>;
               w2 = w1\<lparr>events := events w1 @ [Sleep waitFor]\<rparr>;
               gone = r1\<lparr>err := Errorf (err r1) ''Connection Closed''\<rparr>
           in if \<not> isl res \<or> noRetry r1 then Break res r1 cl1 w1
              else case body r1 of
                None \<Rightarrow>
                  if closed cl1 then Return gone cl1 w1
                  else Continue res r1 (cl1\<lparr>info := None\<rparr>) w2
              | Some (PlainReader _) \<Rightarrow> Break res r1 cl1 w1
              | Some (ReadSeeker _) \<Rightarrow>
                  if \<not> rewinds w (calls w) then Break res r1 cl1 w1
                  else if closed cl1 then Return gone cl1 w1
                  else Continue res r1 cl1 w2))"

text \<open>
  How the loop is left: by a \<open>return\<close>, or by \<open>break\<close> or exhaustion with the
  \<open>resp, err\<close> of the last attempt.
\<close>

datatype Exit = EarlyReturn | LoopEnd "string + Response"

text \<open>The loop over the waits \<open>waitFor # rest\<close>.\<close>

fun attempts ::
  "Lib \<Rightarrow> URL \<Rightarrow> nat \<Rightarrow> nat list \<Rightarrow> R \<Rightarrow> Client \<Rightarrow> World \<Rightarrow> Exit \<times> R \<times> Client \<times> World"
where
  "attempts lib u waitFor rest r cl w =
     (case iteration lib u waitFor r cl w of
        Return r1 cl1 w1 \<Rightarrow> (EarlyReturn, r1, cl1, w1)
      | Break res r1 cl1 w1 \<Rightarrow> (LoopEnd res, r1, cl1, w1)
      | Continue res r1 cl1 w1 \<Rightarrow>
          (case rest of
             [] \<Rightarrow> (LoopEnd res, r1, cl1, w1)
           | x # xs \<Rightarrow> attempts lib u x xs r1 cl1 w1))"

declare attempts.simps [simp del]

text \<open>
  The result of \<open>Response\<close>: \<open>Failed\<close> for \<open>return nil, r.err\<close>, \<open>Got\<close> for
  \<open>return r.Resp, r.err.HasError()\<close>.
\<close>

datatype RespResult = Failed GoError | Got Response "GoError option"

definition Response :: "Lib \<Rightarrow> R \<Rightarrow> Client \<Rightarrow> World \<Rightarrow> RespResult \<times> R \<times> Client \<times> World" where
  "Response lib r cl w =
     (case uri r of
        None \<Rightarrow>
          (let r1 = r\<lparr>err := Errorf (err r) ''No URL to talk to''\<rparr>
           in (Failed (ModelsErr (err r1)), r1, cl, w))
      | Some u \<Rightarrow>
          (let r1 = (if RoundTripTimeout cl > 0 \<and> ctx r = Background
                     then r\<lparr>noRetry := True,
                            ctx := WithDeadline (ctx r) (RoundTripTimeout cl)\<rparr>
                     else r);
               u1 = u\<lparr>RawQuery := valuesEncode lib (params r1)\<rparr>;
               r2 = r1\<lparr>uri := Some u1\<rparr>
           in if closed cl then
                (let r3 = r2\<lparr>err := Errorf (err r2) ''Connection Closed''\<rparr>
                 in (Failed (ModelsErr (err r3)), r3, cl, w))
              else if ContainsError (err r2) then (Failed (ModelsErr (err r2)), r2, cl, w)
              else
                (let r3 = Headers [''Cache-Control'', ''no-store''] r2;
                     r4 = (if traceLvl r3 \<noteq> []
                           then Headers [''X-Log-Token'', traceToken r3]
                                  (Headers [''X-Log-Request'', traceLvl r3] r3)
                           else r3)
                 in case attempts lib u1 (hd timeouts) (tl timeouts) r4 cl w of
                      (EarlyReturn, r5, cl1, w1) \<Rightarrow> (Failed (ModelsErr (err r5)), r5, cl1, w1)
                    | (LoopEnd (Inl e), r5, cl1, w1) \<Rightarrow>
                        (let r6 = r5\<lparr>err := AddError (err r5) (Some (PlainErr e))\<rparr>
                         in (Failed (ModelsErr (err r6)), r6, cl1, w1))
                    | (LoopEnd (Inr resp), r5, cl1, w1) \<Rightarrow>
                        (let r6 = r5\<lparr>Resp := Some resp,
                                      eTag := headerGet (respHeader resp) ''ETag''\<rparr>
                         in (Got resp (HasError (err r6)), r6, cl1, w1)))))"

subsection \<open>Decoding the response\<close>

text \<open>
  An \<open>io.Writer\<close> destination, as a file-like buffer: \<open>Write\<close> puts bytes at
  \<open>offset\<close> and advances it, \<open>seekable\<close> says that the writer is an
  \<open>io.WriteSeeker\<close> as well, and \<open>writeErr\<close> is the error its \<open>Write\<close> fails
  with, if it does.
\<close>

record Writer =
  content :: string
  offset :: nat
  seekable :: bool
  writeErr :: "string option"

definition writeBytes :: "Writer \<Rightarrow> string \<Rightarrow> Writer" where
  "writeBytes wr bs =
     wr\<lparr>content := take (offset wr) (content wr)
                     @ replicate (offset wr - length (content wr)) (CHR 0x00)
                     @ bs @ drop (offset wr + length bs) (content wr),
        offset := offset wr + length bs\<rparr>"

text \<open>
  \<open>Seek(0, io.SeekEnd)\<close> on this buffer: the position moves to the end of the
  content. The source drops what \<open>Seek\<close> returns.
\<close>

definition seekEnd :: "Writer \<Rightarrow> Writer" where
  "seekEnd wr = wr\<lparr>offset := length (content wr)\<rparr>"

text \<open>\<open>io.Copy(wr, resp.Body)\<close>, with the error it returns.\<close>

definition ioCopy :: "Writer \<Rightarrow> Response \<Rightarrow> Writer \<times> GoError option" where
  "ioCopy wr resp =
     (if respBody resp = [] then (wr, map_option PlainErr (bodyErr resp))
      else case writeErr wr of
             Some e \<Rightarrow> (wr, Some (PlainErr e))
           | None \<Rightarrow> (writeBytes wr (respBody resp), map_option PlainErr (bodyErr resp)))"

text \<open>The argument \<open>val\<close> of \<open>Do\<close>: nil, an \<open>io.Writer\<close>, or a value to fill.\<close>

datatype 'a Val = NilVal | WriterVal Writer | ObjVal 'a

text \<open>
  The decoders and the file operations the source calls, as parameters:
  \<open>json.Unmarshal\<close> into a \<open>models.Error\<close>, \<open>Decoder.Decode\<close> and
  \<open>models.Remarshal\<close> into \<open>val\<close>, \<open>httputil.DumpResponse\<close>, and on a file
  \<open>Stat().Size()\<close>, \<open>ModTimeSha.Regenerate\<close> (its error and what \<open>String()\<close>
  returns afterwards) and \<open>Truncate\<close>.
\<close>

record 'a Codec =
  UnmarshalError :: "string \<Rightarrow> string + Error"
  Decode :: "Response \<Rightarrow> 'a Val \<Rightarrow> GoError option \<times> 'a Val"
  Remarshal :: "Header \<Rightarrow> 'a Val \<Rightarrow> GoError option \<times> 'a Val"
  DumpResponse :: "Response \<Rightarrow> string"
  Stat :: "Writer \<Rightarrow> nat option"
  Regenerate :: "Writer \<Rightarrow> string option \<times> string"
  Truncate :: "Writer \<Rightarrow> nat \<Rightarrow> string + Writer"

definition statusError :: "Lib \<Rightarrow> Response \<Rightarrow> R \<Rightarrow> R" where
  "statusError lib resp r =
     r\<lparr>err := (Errorf (err r) (StatusText lib (StatusCode resp)))\<lparr>Code := StatusCode resp\<rparr>\<rparr>"

text \<open>The branch of \<open>Do\<close> for a status of 400 and more.\<close>

definition respondError :: "Lib \<Rightarrow> 'a Codec \<Rightarrow> Response \<Rightarrow> R \<Rightarrow> GoError \<times> R" where
  "respondError lib cd resp r =
     (if httpMethod r = ''HEAD''
      then (let r1 = statusError lib resp r in (ModelsErr (err r1), r1))
      else case bodyErr resp of
             Some e \<Rightarrow> (PlainErr e, r)
           | None \<Rightarrow>
               (case UnmarshalError cd (respBody resp) of
                  Inl e \<Rightarrow>
                    (let r1 = r\<lparr>err := Errorf (AddError ((err r)\<lparr>Code := StatusCode resp\<rparr>)
                                                        (Some (PlainErr e)))
                                           (''Raw response: '' @ respBody resp)\<rparr>
                     in (ModelsErr (err r1), r1))
                | Inr res \<Rightarrow> (ModelsErr res, r)))"

text \<open>
  The block of \<open>Do\<close> for a writer: \<open>Some\<close> when it returns, \<open>None\<close> when control
  falls through it.
\<close>

definition respondWriter :: "Writer \<Rightarrow> Response \<Rightarrow> R \<Rightarrow> (GoError option \<times> Writer \<times> R) option" where
  "respondWriter wr resp r =
     (if StatusCode resp = 304
      then Some (None, (if seekable wr then seekEnd wr else wr), r)
      else if StatusCode resp < 300
      then (case ioCopy wr resp of
              (wr1, e) \<Rightarrow>
                (let r1 = r\<lparr>err := AddError (err r) e\<rparr> in Some (HasError (err r1), wr1, r1)))
      else None)"

text \<open>The rest of \<open>Do\<close>: HEAD requests, 304, and decoding by content type.\<close>

definition respondValue ::
  "Lib \<Rightarrow> 'a Codec \<Rightarrow> 'a Val \<Rightarrow> Response \<Rightarrow> R \<Rightarrow> GoError option \<times> 'a Val \<times> R"
where
  "respondValue lib cd val resp r =
     (if httpMethod r = ''HEAD'' then
        (if StatusCode resp \<le> 300 \<or> StatusCode resp = 304
         then (case val of
                 NilVal \<Rightarrow> (None, val, r)
               | _ \<Rightarrow> (case Remarshal cd (respHeader resp) val of (e, v) \<Rightarrow> (e, v, r)))
         else (let r1 = statusError lib resp r in (Some (ModelsErr (err r1)), val, r1)))
      else if StatusCode resp = 304 then (None, val, r)
      else
        (let ct = headerGet (respHeader resp) ''Content-Type'';
             mt = ParseMediaType lib ct
         in if mt = ''application/json'' then
              (case val of
                 NilVal \<Rightarrow> (HasError (err r), val, r)
               | _ \<Rightarrow>
                   if ContentLength resp \<noteq> 0
                   then (case Decode cd resp val of
                           (e, v) \<Rightarrow>
                             (let r1 = r\<lparr>err := AddError (err r) e\<rparr>
                              in (HasError (err r1), v, r1)))
                   else (HasError (err r), val, r))
            else
              (let r1 = r\<lparr>err := Errorf (Errorf (Errorf (err r)
                                 (''Cannot handle content-type '' @ ct))
                                 (''Resp: '' @ [CHR 0x0A] @ DumpResponse cd resp))
                                 (''No decoder for content-type '' @ ct)\<rparr>
               in (Some (ModelsErr (err r1)), val, r1))))"

definition respond ::
  "Lib \<Rightarrow> 'a Codec \<Rightarrow> 'a Val \<Rightarrow> Response \<Rightarrow> R \<Rightarrow> GoError option \<times> 'a Val \<times> R"
where
  "respond lib cd val resp r =
     (if StatusCode resp \<ge> 400
      then (case respondError lib cd resp r of (e, r1) \<Rightarrow> (Some e, val, r1))
      else
        (let r1 = r\<lparr>eTag := headerGet (respHeader resp) ''ETag''\<rparr>
         in case val of
              WriterVal wr \<Rightarrow>
                (case respondWriter wr resp r1 of
                   Some (e, wr1, r2) \<Rightarrow> (e, WriterVal wr1, r2)
                 | None \<Rightarrow> respondValue lib cd val resp r1)
            | _ \<Rightarrow> respondValue lib cd val resp r1))"

text \<open>
  \<open>Do\<close>. The call of \<open>Fill\<close> at its end is guarded by \<open>err != nil\<close> for the error
  of \<open>Response\<close>, which is nil there, so it never runs.
\<close>

definition Do ::
  "Lib \<Rightarrow> 'a Codec \<Rightarrow> 'a Val \<Rightarrow> R \<Rightarrow> Client \<Rightarrow> World
     \<Rightarrow> GoError option \<times> 'a Val \<times> R \<times> Client \<times> World"
where
  "Do lib cd val r cl w =
     (let r1 = Headers [''Accept'', ''application/json''] r;
          r2 = (case val of
                  WriterVal _ \<Rightarrow> Headers [''Accept'', ''application/octet-stream''] r1
                | _ \<Rightarrow> r1)
      in case Response lib r2 cl w of
           (Failed e, r3, cl1, w1) \<Rightarrow> (Some e, val, r3, cl1, w1)
         | (Got resp (Some e), r3, cl1, w1) \<Rightarrow> (Some e, val, r3, cl1, w1)
         | (Got resp None, r3, cl1, w1) \<Rightarrow>
             (case respond lib cd val resp r3 of (e, v, r4) \<Rightarrow> (e, v, r4, cl1, w1)))"

subsection \<open>Server information and blobs\<close>


text \<open>The destination of \<open>GetBlob\<close>: an \<open>*os.File\<close> or another writer.\<close>

datatype Dest = FileDest Writer | WriterDest Writer

fun destWriter :: "Dest \<Rightarrow> Writer" where
  "destWriter (FileDest fi) = fi"
| "destWriter (WriterDest wr) = wr"

text \<open>The descriptor \<open>GetBlob\<close> has built when it calls \<open>Do\<close>.\<close>

definition GetBlobReq :: "Lib \<Rightarrow> 'a Codec \<Rightarrow> Dest \<Rightarrow> string list \<Rightarrow> Client \<Rightarrow> R" where
  "GetBlobReq lib cd dest at cl =
     (let req = UrlFor lib cl [pathJoin lib [''/'', pathJoin lib at]] (Req cl);
          shasum = (case dest of
                      FileDest fi \<Rightarrow>
                        (case Regenerate cd fi of
                           (Some e, s) \<Rightarrow> s
                         | (None, s) \<Rightarrow> [])
                    | WriterDest _ \<Rightarrow> [])
      in if shasum \<noteq> []
         then Headers [''If-None-Match'', [CHR 0x22] @ ''SHA256:'' @ shasum @ [CHR 0x22]] req
         else req)"

definition GetBlob ::
  "Lib \<Rightarrow> 'a Codec \<Rightarrow> Dest \<Rightarrow> string list \<Rightarrow> Client \<Rightarrow> World
     \<Rightarrow> GoError option \<times> Dest \<times> Client \<times> World"
where
  "GetBlob lib cd dest at cl w =
     (let startSz = (case dest of
                       FileDest fi \<Rightarrow> (case Stat cd fi of Some n \<Rightarrow> n | None \<Rightarrow> 0)
                     | WriterDest _ \<Rightarrow> 0)
      in case Do lib cd (WriterVal (destWriter dest)) (GetBlobReq lib cd dest at cl) cl w of
           (e, v, r, cl1, w1) \<Rightarrow>
             (let wr = (case v of WriterVal x \<Rightarrow> x | _ \<Rightarrow> destWriter dest) in
              case dest of
                WriterDest _ \<Rightarrow> (e, WriterDest wr, cl1, w1)
              | FileDest _ \<Rightarrow>
                  (case e of
                     Some x \<Rightarrow> (e, FileDest wr, cl1, w1)
                   | None \<Rightarrow>
                       if offset wr \<noteq> startSz
                       then (case Truncate cd wr (offset wr) of
                               Inl x \<Rightarrow> (Some (PlainErr x), FileDest wr, cl1, w1)
                             | Inr fi \<Rightarrow> (None, FileDest fi, cl1, w1))
                       else (None, FileDest wr, cl1, w1))))"

subsection \<open>Builder chains\<close>

text \<open>
  A chain of builder calls on a descriptor, as the list of the calls made: each
  constructor is one builder call of \<open>R\<close> with its arguments.
\<close>

datatype Step =
    SContext Context | SProxy string | STrace string | STraceToken string
  | SMeth string | SGet | SList string | SDel | SHead
  | SPut BodyArg | SPost BodyArg | SPatch "string + string" | SParanoidPatch
  | SWait string string
  | SPatchObj "bool \<Rightarrow> GoError + (string + string)"
  | SPatchTo "bool \<Rightarrow> GoError + (string + string)" ModelRef ModelRef
  | SUrlFor "string list" | SUrlForM ModelRef "string list"
  | SParams "string list" | SFilter string "string list" | SHeaders "string list"
  | SBody BodyArg | SFailFast

fun step :: "Lib \<Rightarrow> Client \<Rightarrow> R \<Rightarrow> Step \<Rightarrow> R" where
  "step lib cl r (SContext cx) = Context cx r"
| "step lib cl r (SProxy p) = Proxy p r"
| "step lib cl r (STrace lvl) = Trace lvl r"
| "step lib cl r (STraceToken t) = TraceToken t r"
| "step lib cl r (SMeth v) = Meth v r"
| "step lib cl r SGet = Get r"
| "step lib cl r (SList p) = List lib cl p r"
| "step lib cl r SDel = Del r"
| "step lib cl r SHead = Head r"
| "step lib cl r (SPut b) = Put b r"
| "step lib cl r (SPost b) = Post b r"
| "step lib cl r (SPatch b) = Patch b r"
| "step lib cl r SParanoidPatch = ParanoidPatch r"
| "step lib cl r (SWait e d) = Wait e d r"
| "step lib cl r (SPatchObj g) = PatchObj g r"
| "step lib cl r (SPatchTo g old new) = PatchTo lib cl g old new r"
| "step lib cl r (SUrlFor args) = UrlFor lib cl args r"
| "step lib cl r (SUrlForM m rest) = UrlForM lib cl m rest r"
| "step lib cl r (SParams args) = Params args r"
| "step lib cl r (SFilter p args) = Filter lib cl p args r"
| "step lib cl r (SHeaders args) = Headers args r"
| "step lib cl r (SBody b) = Body b r"
| "step lib cl r SFailFast = FailFast r"

definition chain :: "Lib \<Rightarrow> Client \<Rightarrow> Step list \<Rightarrow> R" where
  "chain lib cl steps = foldl (step lib cl) (Req cl) steps"

text \<open>The second descriptor holds every message of the first, in order, and maybe more.\<close>

definition grows :: "R \<Rightarrow> R \<Rightarrow> bool" where
  "grows r r1 = (\<exists>ms. Messages (err r1) = Messages (err r) @ ms)"

subsection \<open>Specification-side definitions\<close>

text \<open>
  The spec's words for \<open>Params\<close>: the last write per key wins. \<open>lastWrite args k\<close>
  is the value paired with the last occurrence of the key \<open>k\<close> in \<open>args\<close>.
\<close>

fun lastWrite :: "string list \<Rightarrow> string \<Rightarrow> string option" where
  "lastWrite (k1 # v # rest) k =
     (case lastWrite rest k of Some x \<Rightarrow> Some x | None \<Rightarrow> if k1 = k then Some v else None)"
| "lastWrite _ k = None"



text \<open>What an iteration of the retry loop leaves of the descriptor as it was.\<close>

definition kept :: "R \<Rightarrow> R \<Rightarrow> bool" where
  "kept r r1 = (Resp r1 = Resp r \<and> body r1 = body r \<and> noRetry r1 = noRetry r
                 \<and> httpMethod r1 = httpMethod r \<and> uri r1 = uri r)"




subsection \<open>Sample inputs\<close>

definition lib0 :: Lib where
  "lib0 = \<lparr>pathJoin = concat, ParseRequestURI = (\<lambda>s. Inr \<lparr>Raw = s, RawQuery = []\<rparr>),
           localProxySocket = [], valuesEncode = (\<lambda>m. []), urlString = Raw,
           NewRequest = (\<lambda>m us. None), base64Encode = (\<lambda>s. s),
           StatusText = (\<lambda>n. ''status''), ParseMediaType = (\<lambda>s. s),
           unicodeToLower = (\<lambda>s. s), unicodeTitle = (\<lambda>s. s)\<rparr>"

definition cl0 :: Client where
  "cl0 = \<lparr>RoundTripTimeout = 0, endpoint = ''https://127.0.0.1:8092'',
          username = ''rocketskates'', password = ''r0cketsk8ts'', neverProxy = True,
          token = None, closer = OpenChan, closed = False, clientTraceLvl = [],
          clientTraceToken = [], info = None, urlProxy = []\<rparr>"

definition cl0closed :: Client where
  "cl0closed = cl0\<lparr>closer := ClosedChan, closed := True, info := None\<rparr>"

definition w0 :: World where
  "w0 = \<lparr>transport = (\<lambda>n q. Inl ''connection refused''), rewinds = (\<lambda>n. True),
         closedDuring = (\<lambda>n. False), calls = 0, events = [], heap = (\<lambda>a. emptyInfo),
         allocs = 0\<rparr>"

definition cd0 :: "'a Codec" where
  "cd0 = \<lparr>UnmarshalError = (\<lambda>s. Inl ''invalid character''), Decode = (\<lambda>resp v. (None, v)),
          Remarshal = (\<lambda>h v. (None, v)), DumpResponse = (\<lambda>resp. []),
          Stat = (\<lambda>wr. Some (length (content wr))), Regenerate = (\<lambda>wr. (None, ''abc'')),
          Truncate = (\<lambda>wr n. Inr (wr\<lparr>content := take n (content wr)\<rparr>))\<rparr>"

definition resp0 :: "int \<Rightarrow> Response" where
  "resp0 code = \<lparr>StatusCode = code, respHeader = [], respBody = [], bodyErr = None,
                 ContentLength = 0\<rparr>"

definition fi0 :: Writer where
  "fi0 = \<lparr>content = ''old'', offset = 0, seekable = True, writeErr = None\<rparr>"

definition rq0 :: R where
  "rq0 = UrlFor lib0 cl0 [''isos''] (Req cl0)"

definition w304 :: World where
  "w304 = w0\<lparr>transport := (\<lambda>n q. Inr (resp0 304))\<rparr>"

definition rqPost :: R where
  "rqPost = Post (BytesArg ''x'') (UrlFor lib0 cl0 [''machines''] (Req cl0))"

definition rqStream :: R where
  "rqStream = Post (ReaderArg (PlainReader ''x'')) (UrlFor lib0 cl0 [''machines''] (Req cl0))"

definition wFlaky :: "nat \<Rightarrow> World" where
  "wFlaky k = w0\<lparr>transport := (\<lambda>n q. if n < k then Inl ''connection reset''
                                       else Inr (resp0 200))\<rparr>"

definition w500 :: World where
  "w500 = w0\<lparr>transport := (\<lambda>n q. Inr (resp0 500))\<rparr>"

definition respJson :: Response where
  "respJson = \<lparr>StatusCode = 200, respHeader = [(''Content-Type'', ''application/json'')],
               respBody = ''{Arch: amd64, FilePort: x}'', bodyErr = None, ContentLength = 26\<rparr>"

definition wJson :: World where
  "wJson = w0\<lparr>transport := (\<lambda>n q. Inr respJson)\<rparr>"

text \<open>
  A decoder that fails on a field of the wrong type after it has filled the fields
  before it, as \<open>encoding/json\<close> does.
\<close>

definition cdPartial :: "Info Codec" where
  "cdPartial = cd0\<lparr>Decode := (\<lambda>resp v.
      (Some (PlainErr ''json: cannot unmarshal string into Go struct field Info.FilePort''),
       ObjVal (emptyInfo\<lparr>Arch := ''amd64''\<rparr>)))\<rparr>"

definition clInfo :: Client where
  "clInfo = cl0\<lparr>info := Some 7\<rparr>"

definition wNoRewind :: World where
  "wNoRewind = (wFlaky 1)\<lparr>rewinds := (\<lambda>n. False)\<rparr>"

definition wClosing :: World where
  "wClosing = (wFlaky 1)\<lparr>closedDuring := (\<lambda>n. n = 0)\<rparr>"

definition wDown :: World where
  "wDown = wFlaky 6"

definition qPost :: Request where
  "qPost = \<lparr>reqMethod = ''POST'', reqURL = ''https://127.0.0.1:8092/api/v3machines'',
            reqHeader = [(''Content-Type'', ''application/octet-stream''),
                         (''Cache-Control'', ''no-store''),
                         (''Authorization'', ''Basic rocketskates:r0cketsk8ts'')]\<rparr>"

definition qGet :: Request where
  "qGet = \<lparr>reqMethod = ''GET'', reqURL = ''https://127.0.0.1:8092/api/v3isos'',
           reqHeader = [(''Cache-Control'', ''no-store''),
                        (''Authorization'', ''Basic rocketskates:r0cketsk8ts'')]\<rparr>"

definition uIsos :: URL where
  "uIsos = \<lparr>Raw = ''https://127.0.0.1:8092/api/v3isos'', RawQuery = []\<rparr>"

definition u0 :: URL where
  "u0 = \<lparr>Raw = ''https://127.0.0.1:8092/api/v3machines'', RawQuery = []\<rparr>"

section \<open>Properties\<close>

subsection \<open>Recorded errors only grow along a chain\<close>

lemma grows_refl: "grows r r"
  by (simp add: grows_def)

lemma grows_trans: "grows a b \<Longrightarrow> grows b c \<Longrightarrow> grows a c"
  by (auto simp: grows_def)

lemma grows_Meth: "grows r (Meth v r)"
  by (simp add: grows_def Meth_def)

lemma grows_Headers: "grows r (Headers args r)"
  by (simp add: grows_def Headers_def Errorf_def)

lemma grows_Params: "grows r (Params args r)"
  by (simp add: grows_def Params_def Errorf_def)

lemma grows_UrlFor: "grows r (UrlFor lib cl args r)"
  by (simp add: grows_def UrlFor_def Errorf_def split: sum.splits)

lemma grows_UrlForM: "grows r (UrlForM lib cl m rest r)"
  by (simp add: grows_def UrlForM_def UrlFor_def Errorf_def split: sum.splits)

lemma grows_Body: "grows r (Body b r)"
  by (simp add: grows_def Body_def Headers_def Errorf_def Let_def split: BodyArg.splits sum.splits)

lemma AddError_appends: "\<exists>ms. Messages (AddError e x) = Messages e @ ms"
  by (cases "(e, x)" rule: AddError.cases) (simp_all add: Errorf_def)

lemma grows_PatchObj: "grows r (PatchObj g r)"
proof (cases "g (paranoid r)")
  case (Inl e)
  then show ?thesis
    using AddError_appends[of "err r" "Some e"] by (simp add: PatchObj_def grows_def)
next
  case (Inr b)
  then show ?thesis
    using grows_trans[OF grows_Meth grows_Body] by (simp add: PatchObj_def)
qed

lemma grows_Filter: "grows r (Filter lib cl p args r)"
proof -
  have a: "grows r (UrlFor lib cl [p] (Get r))"
    unfolding Get_def by (rule grows_trans[OF grows_Meth grows_UrlFor])
  show ?thesis
  proof (cases "filterLoop lib args []")
    case (Inl msg)
    then have "Filter lib cl p args r =
        (UrlFor lib cl [p] (Get r))\<lparr>err := Errorf (err (UrlFor lib cl [p] (Get r))) msg\<rparr>"
      by (simp add: Filter_def Let_def)
    then show ?thesis using a by (auto simp: grows_def Errorf_def)
  next
    case (Inr fin)
    then have "Filter lib cl p args r = Params fin (UrlFor lib cl [p] (Get r))"
      by (simp add: Filter_def Let_def)
    then show ?thesis using grows_trans[OF a grows_Params] by simp
  qed
qed

lemma grows_step: "grows r (step lib cl r s)"
proof (cases s)
  case (SList p)
  then show ?thesis
    using grows_trans[OF grows_Meth grows_UrlFor] by (simp add: List_def Get_def)
next
  case (SPut b)
  then show ?thesis using grows_trans[OF grows_Meth grows_Body] by (simp add: Put_def)
next
  case (SPost b)
  then show ?thesis using grows_trans[OF grows_Meth grows_Body] by (simp add: Post_def)
next
  case (SPatch b)
  then show ?thesis using grows_trans[OF grows_Meth grows_Body] by (simp add: Patch_def)
next
  case (SPatchObj g)
  then show ?thesis by (simp add: grows_PatchObj)
next
  case (SPatchTo g old new)
  show ?thesis
  proof (cases "Prefix old \<noteq> Prefix new \<or> MKey old \<noteq> MKey new")
    case True
    then show ?thesis using SPatchTo by (auto simp: PatchTo_def grows_def Errorf_def)
  next
    case False
    then show ?thesis
      using SPatchTo grows_trans[OF grows_PatchObj grows_UrlForM] by (simp add: PatchTo_def)
  qed
next
  case (SFilter p args)
  then show ?thesis by (simp add: grows_Filter)
qed (simp_all add: grows_def Context_def Proxy_def Trace_def TraceToken_def Meth_def Get_def
       Del_def Head_def ParanoidPatch_def Wait_def FailFast_def
       grows_UrlFor[unfolded grows_def] grows_UrlForM[unfolded grows_def]
       grows_Params[unfolded grows_def] grows_Headers[unfolded grows_def]
       grows_Body[unfolded grows_def])

lemma grows_foldl: "grows r (foldl (step lib cl) r steps)"
proof (induction steps arbitrary: r)
  case Nil
  show ?case by (simp add: grows_refl)
next
  case (Cons s steps)
  show ?case using grows_trans[OF grows_step Cons.IH] by simp
qed

lemma grows_chain: "grows (chain lib cl pre) (chain lib cl (pre @ post))"
  by (simp add: chain_def grows_foldl)

subsection \<open>Execution fails closed\<close>

lemma Response_fail_closed:
  assumes "Messages (err r) \<noteq> []"
  shows "\<exists>e r1. Response lib r cl w = (Failed (ModelsErr e), r1, cl, w)
           \<and> set (Messages (err r)) \<subseteq> set (Messages e)"
  using assms
  by (auto simp: Response_def Let_def Errorf_def ContainsError_def split: option.splits)

lemma Do_fail_closed:
  assumes "Messages (err r) \<noteq> []"
  shows "\<exists>e r1. Do lib cd val r cl w = (Some (ModelsErr e), val, r1, cl, w)
           \<and> set (Messages (err r)) \<subseteq> set (Messages e)"
proof -
  define r2 where "r2 = (case val of
       WriterVal _ \<Rightarrow> Headers [''Accept'', ''application/octet-stream'']
                        (Headers [''Accept'', ''application/json''] r)
     | _ \<Rightarrow> Headers [''Accept'', ''application/json''] r)"
  have m: "Messages (err r2) = Messages (err r)"
    by (simp add: r2_def Headers_def split: Val.splits)
  with assms have "Messages (err r2) \<noteq> []" by simp
  from Response_fail_closed[OF this, of lib cl w] obtain e r1 where
    "Response lib r2 cl w = (Failed (ModelsErr e), r1, cl, w)"
    "set (Messages (err r2)) \<subseteq> set (Messages e)"
    by blast
  then show ?thesis using m by (auto simp: Do_def Let_def r2_def)
qed

text \<open>
  Claim C1. Once a step of a builder chain has recorded a validation error \<open>m\<close>,
  executing the descriptor built by the whole chain, through \<open>Response\<close> or through
  \<open>Do\<close>, leaves the world as it was (no round trip, no sleep) and returns the
  descriptor's error, which holds \<open>m\<close>.
\<close>

theorem C1_fail_closed:
  assumes "m \<in> set (Messages (err (chain lib cl pre)))"
  shows "(\<exists>e r1. Response lib (chain lib cl (pre @ post)) cl2 w
                    = (Failed (ModelsErr e), r1, cl2, w)
            \<and> m \<in> set (Messages e))
       \<and> (\<exists>e r1. Do lib cd val (chain lib cl (pre @ post)) cl2 w
                    = (Some (ModelsErr e), val, r1, cl2, w)
            \<and> m \<in> set (Messages e))"
proof -
  from grows_chain[of lib cl pre post] assms
  have m: "m \<in> set (Messages (err (chain lib cl (pre @ post))))"
    by (auto simp: grows_def)
  then have ne: "Messages (err (chain lib cl (pre @ post))) \<noteq> []" by auto
  show ?thesis
    using Response_fail_closed[OF ne, of lib cl2 w] Do_fail_closed[OF ne, of lib cd val cl2 w] m
    by blast
qed

theorem C1_fail_closed_witness:
  "''Params was not passed an even number of arguments''
      \<in> set (Messages (err (chain lib0 cl0 [SParams [''a'']])))
   \<and> (\<exists>e r1. Response lib0 (chain lib0 cl0 ([SParams [''a'']] @ [SUrlFor [''machines'']])) cl0 w0
               = (Failed (ModelsErr e), r1, cl0, w0)
         \<and> ''Params was not passed an even number of arguments'' \<in> set (Messages e))"
proof -
  have h: "''Params was not passed an even number of arguments''
      \<in> set (Messages (err (chain lib0 cl0 [SParams [''a'']])))"
    by (simp add: chain_def Params_def Errorf_def Req_def)
  from C1_fail_closed[OF h, of "[SUrlFor [''machines'']]" cl0 w0 cd0 NilVal] h
  show ?thesis by blast
qed

subsection \<open>Query parameters\<close>

lemma valuesSet_apply: "valuesSet vs k1 v k = (if k = k1 then Some [v] else vs k)"
  by (simp add: valuesSet_def)

lemma setPairs_lastWrite:
  "setPairs vs args k = (case lastWrite args k of None \<Rightarrow> vs k | Some v \<Rightarrow> Some [v])"
proof (induction vs args rule: setPairs.induct)
  case (1 vs k1 v rest)
  have "setPairs (valuesSet vs k1 v) rest k =
          (case lastWrite rest k of None \<Rightarrow> valuesSet vs k1 v k | Some x \<Rightarrow> Some [x])"
    by (rule "1.IH")
  then show ?case
    unfolding setPairs.simps
    by (simp only: valuesSet_apply lastWrite.simps split: option.splits) auto
qed simp_all

text \<open>
  Claim C6. \<open>Params("a","1","a","2")\<close> leaves exactly the one value \<open>"2"\<close> for the key
  \<open>"a"\<close>. In general, after \<open>Params\<close> with an even number of arguments a key that
  occurs among them holds the single value of its last occurrence, whatever the
  descriptor held for it before (so a later call replaces, never accumulates), any other
  key is untouched, and no error is recorded.
\<close>

theorem C6_params_last_write_wins:
  "params (Params [''a'', ''1'', ''a'', ''2''] r) ''a'' = Some [''2'']
   \<and> (even (length args) \<longrightarrow>
        params (Params args r) k
          = (case lastWrite args k of None \<Rightarrow> params r k | Some v \<Rightarrow> Some [v])
        \<and> err (Params args r) = err r)"
  by (simp add: Params_def setPairs_lastWrite valuesSet_apply)

theorem C6_params_last_write_wins_witness:
  "even (length [''a'', ''1'', ''b'', ''3'', ''a'', ''2''])
   \<and> params (Params [''a'', ''1'', ''b'', ''3'', ''a'', ''2''] (Params [''a'', ''0''] (Req cl0))) ''a''
       = Some [''2'']"
  using C6_params_last_write_wins
          [of "Params [''a'', ''0''] (Req cl0)" "[''a'', ''1'', ''b'', ''3'', ''a'', ''2'']" "''a''"]
  by simp

subsection \<open>Closing twice\<close>

text \<open>
  Claim C9. \<open>Close\<close> is one-shot: on a client that a call of \<open>Close\<close> has closed, a
  second call panics with "close of closed channel", at \<open>close(c.closer)\<close>, instead of
  returning.
\<close>

theorem C9_double_close:
  "Close cl = Inr cl1 \<Longrightarrow> closed cl1 \<and> Close cl1 = Inl ''close of closed channel''"
  by (auto simp: Close_def split: Chan.splits)

theorem C9_double_close_witness:
  "Close cl0 = Inr (cl0\<lparr>closer := ClosedChan, closed := True, info := None\<rparr>)
   \<and> Close (cl0\<lparr>closer := ClosedChan, closed := True, info := None\<rparr>)
       = Inl ''close of closed channel''"
proof -
  have h: "Close cl0 = Inr (cl0\<lparr>closer := ClosedChan, closed := True, info := None\<rparr>)"
    by (simp add: Close_def cl0_def)
  from C9_double_close[OF h] h show ?thesis by simp
qed

subsection \<open>Filter\<close>

lemma ascii_samples:
  "isASCII ''Eq''" "lowerASCII ''Eq'' = ''eq''" "isASCII ''eq''" "titleASCII ''eq'' = ''Eq''"
  "isASCII ''Bogus''" "lowerASCII ''Bogus'' = ''bogus''" "isASCII ''bogus''"
  "lowerASCII ''bogus'' = ''bogus''" "titleASCII ''bogus'' = ''Bogus''"
  by code_simp+

lemma title_Eq: "Title lib (ToLower lib ''Eq'') = ''Eq''"
  by (simp only: Title_def ToLower_def ascii_samples if_True)

lemma title_Bogus: "Title lib (ToLower lib ''Bogus'') = ''Bogus''"
  by (simp only: Title_def ToLower_def ascii_samples if_True)

lemma title_bogus: "Title lib (ToLower lib ''bogus'') = ''Bogus''"
  by (simp only: Title_def ToLower_def ascii_samples if_True)

lemma filterLoop_sample:
  "filterLoop lib [''sort'', ''Name'', ''limit'', ''5'', ''Stage'', ''Eq'', ''complete''] []
     = Inr [''sort'', ''Name'', ''limit'', ''5'', ''Stage'', ''Eq(complete)'']"
  by (simp add: title_Eq plainOps_def Let_def)

lemma filterLoop_bogus:
  "filterLoop lib [''Stage'', ''Bogus'', ''x''] []
     = Inl ''Invalid Filter Stage: unknown op Bogus''"
  by (simp add: title_Bogus plainOps_def Let_def)

lemma filterLoop_unknown_op:
  assumes "f \<notin> set [''reverse'', ''decode'', ''sort'', ''limit'', ''offset'', ''slim'', ''params'']"
    and "Title lib (ToLower lib o1) \<notin> set plainOps \<union> {''Between'', ''Except''}"
  shows "filterLoop lib (f # o1 # rest) fin
           = Inl (''Invalid Filter '' @ f @ '': unknown op '' @ Title lib (ToLower lib o1))"
  using assms by (simp add: Let_def)

lemma Filter_error:
  assumes "filterLoop lib args [] = Inl msg"
  shows "Messages (err (Filter lib cl p args r))
           = Messages (err (UrlFor lib cl [p] (Get r))) @ [msg]"
    and "params (Filter lib cl p args r) = params r"
  using assms
  by (simp_all add: Filter_def Let_def Errorf_def UrlFor_def Get_def Meth_def split: sum.splits)

text \<open>
  Claim C7. On a fresh descriptor,
  \<open>Filter("machines","sort","Name","limit","5","Stage","Eq","complete")\<close> records no
  error of its own (the descriptor's error is the one of \<open>Get().UrlFor("machines")\<close>,
  which is empty when the URL parses) and the query parameters are exactly
  \<open>sort = Name\<close>, \<open>limit = 5\<close>, \<open>Stage = Eq(complete)\<close>.
  \<open>Filter("machines","Stage","Bogus","x")\<close> records "unknown op", sets no parameter, and
  \<open>Do\<close> on that descriptor returns the error with the world untouched. The same holds
  for every index name that is no directive and every operator whose form after
  \<open>strings.Title(strings.ToLower(op))\<close> is none of the known ones.
\<close>

theorem C7_filter:
  "(let r = Filter lib cl ''machines''
              [''sort'', ''Name'', ''limit'', ''5'', ''Stage'', ''Eq'', ''complete''] (Req cl)
    in err r = err (UrlFor lib cl [''machines''] (Get (Req cl)))
       \<and> params r = [''sort'' \<mapsto> [''Name''], ''limit'' \<mapsto> [''5''],
                        ''Stage'' \<mapsto> [''Eq(complete)'']]
       \<and> (UrlForProxy lib cl (urlProxy cl) [''machines''] = Inr u
            \<longrightarrow> Messages (err r) = [] \<and> uri r = Some u))
   \<and> (let r = Filter lib cl ''machines'' [''Stage'', ''Bogus'', ''x''] (Req cl)
      in ''Invalid Filter Stage: unknown op Bogus'' \<in> set (Messages (err r))
         \<and> params r = Map.empty
         \<and> (\<exists>e r1. Do lib cd val r cl2 w = (Some (ModelsErr e), val, r1, cl2, w)
               \<and> ''Invalid Filter Stage: unknown op Bogus'' \<in> set (Messages e)))
   \<and> (f \<notin> set [''reverse'', ''decode'', ''sort'', ''limit'', ''offset'', ''slim'', ''params'']
       \<and> Title lib (ToLower lib o1) \<notin> set plainOps \<union> {''Between'', ''Except''}
      \<longrightarrow> (let r = Filter lib cl p (f # o1 # rest) r0
           in last (Messages (err r))
                = ''Invalid Filter '' @ f @ '': unknown op '' @ Title lib (ToLower lib o1)
              \<and> params r = params r0
              \<and> (\<exists>e r1. Do lib cd val r cl2 w = (Some (ModelsErr e), val, r1, cl2, w))))"
proof (intro conjI impI)
  show "let r = Filter lib cl ''machines''
              [''sort'', ''Name'', ''limit'', ''5'', ''Stage'', ''Eq'', ''complete''] (Req cl)
    in err r = err (UrlFor lib cl [''machines''] (Get (Req cl)))
       \<and> params r = [''sort'' \<mapsto> [''Name''], ''limit'' \<mapsto> [''5''],
                        ''Stage'' \<mapsto> [''Eq(complete)'']]
       \<and> (UrlForProxy lib cl (urlProxy cl) [''machines''] = Inr u
            \<longrightarrow> Messages (err r) = [] \<and> uri r = Some u)"
    unfolding Filter_def filterLoop_sample
    by (simp add: Let_def Params_def valuesSet_def UrlFor_def Get_def Meth_def Req_def
          split: sum.splits)
next
  let ?r = "Filter lib cl ''machines'' [''Stage'', ''Bogus'', ''x''] (Req cl)"
  have m: "''Invalid Filter Stage: unknown op Bogus'' \<in> set (Messages (err ?r))"
    by (simp add: Filter_error(1)[OF filterLoop_bogus])
  then have ne: "Messages (err ?r) \<noteq> []" by auto
  have p: "params ?r = Map.empty"
    by (simp add: Filter_error(2)[OF filterLoop_bogus] Req_def)
  from Do_fail_closed[OF ne, of lib cd val cl2 w] m p
  show "let r = ?r
      in ''Invalid Filter Stage: unknown op Bogus'' \<in> set (Messages (err r))
         \<and> params r = Map.empty
         \<and> (\<exists>e r1. Do lib cd val r cl2 w = (Some (ModelsErr e), val, r1, cl2, w)
               \<and> ''Invalid Filter Stage: unknown op Bogus'' \<in> set (Messages e))"
    unfolding Let_def by blast
next
  assume a: "f \<notin> set [''reverse'', ''decode'', ''sort'', ''limit'', ''offset'', ''slim'', ''params'']
       \<and> Title lib (ToLower lib o1) \<notin> set plainOps \<union> {''Between'', ''Except''}"
  let ?r = "Filter lib cl p (f # o1 # rest) r0"
  from a have fl: "filterLoop lib (f # o1 # rest) []
           = Inl (''Invalid Filter '' @ f @ '': unknown op '' @ Title lib (ToLower lib o1))"
    by (intro filterLoop_unknown_op) auto
  have l: "last (Messages (err ?r))
             = ''Invalid Filter '' @ f @ '': unknown op '' @ Title lib (ToLower lib o1)"
    by (simp add: Filter_error(1)[OF fl])
  have ne: "Messages (err ?r) \<noteq> []" by (simp add: Filter_error(1)[OF fl])
  from Do_fail_closed[OF ne, of lib cd val cl2 w] l Filter_error(2)[OF fl, of cl p r0]
  show "let r = ?r
           in last (Messages (err r))
                = ''Invalid Filter '' @ f @ '': unknown op '' @ Title lib (ToLower lib o1)
              \<and> params r = params r0
              \<and> (\<exists>e r1. Do lib cd val r cl2 w = (Some (ModelsErr e), val, r1, cl2, w))"
    unfolding Let_def by blast
qed

theorem C7_filter_witness:
  "UrlForProxy lib0 cl0 (urlProxy cl0) [''machines'']
     = Inr \<lparr>Raw = ''https://127.0.0.1:8092/api/v3machines'', RawQuery = []\<rparr>
   \<and> Messages (err (Filter lib0 cl0 ''machines''
              [''sort'', ''Name'', ''limit'', ''5'', ''Stage'', ''Eq'', ''complete''] (Req cl0))) = []
   \<and> ''Stage'' \<notin> set [''reverse'', ''decode'', ''sort'', ''limit'', ''offset'', ''slim'', ''params'']
   \<and> Title lib0 (ToLower lib0 ''bogus'') \<notin> set plainOps \<union> {''Between'', ''Except''}
   \<and> last (Messages (err (Filter lib0 cl0 ''machines'' [''Stage'', ''bogus'', ''x''] (Req cl0))))
        = ''Invalid Filter Stage: unknown op Bogus''"
proof -
  have h1: "UrlForProxy lib0 cl0 (urlProxy cl0) [''machines'']
     = Inr \<lparr>Raw = ''https://127.0.0.1:8092/api/v3machines'', RawQuery = []\<rparr>"
    by (simp add: UrlForProxy_def lib0_def cl0_def realEndpoint_def locallyProxied_def APIPATH_def)
  have h2: "''Stage'' \<notin> set [''reverse'', ''decode'', ''sort'', ''limit'', ''offset'', ''slim'', ''params'']
     \<and> Title lib0 (ToLower lib0 ''bogus'') \<notin> set plainOps \<union> {''Between'', ''Except''}"
    by (simp add: title_bogus plainOps_def)
  note t = C7_filter[of lib0 cl0
        "\<lparr>Raw = ''https://127.0.0.1:8092/api/v3machines'', RawQuery = []\<rparr>"
        cd0 NilVal cl0 w0 "''Stage''" "''bogus''" "''machines''" "[''x'']" "Req cl0",
        unfolded Let_def]
  have a: "Messages (err (Filter lib0 cl0 ''machines''
              [''sort'', ''Name'', ''limit'', ''5'', ''Stage'', ''Eq'', ''complete''] (Req cl0))) = []"
    using t[THEN conjunct1, THEN conjunct2, THEN conjunct2, rule_format, OF h1] by simp
  have b: "last (Messages (err (Filter lib0 cl0 ''machines'' [''Stage'', ''bogus'', ''x''] (Req cl0))))
        = ''Invalid Filter Stage: unknown op Bogus''"
    using t[THEN conjunct2, THEN conjunct2, rule_format, OF h2, THEN conjunct1]
    unfolding title_bogus by simp
  show ?thesis using h1 h2 a b by simp
qed

subsection \<open>What the retry loop keeps\<close>

lemmas eval_defs = GetBlob_def GetBlobReq_def Do_def Response_def iteration_def respond_def
  respondWriter_def respondValue_def respondError_def statusError_def Headers_def
  headerAdd_def headerGet_def headerSet_def Authorize_def Token_def interfere_def Close_def
  UrlFor_def UrlForProxy_def realEndpoint_def locallyProxied_def APIPATH_def Req_def
  Errorf_def ContainsError_def HasError_def timeouts_def seekEnd_def ioCopy_def
  writeBytes_def lib0_def cl0_def w0_def cd0_def resp0_def fi0_def Let_def

lemma iteration_cases:
  "(\<exists>r1 cl1 w1. iteration lib u x r cl w = Return r1 cl1 w1 \<and> kept r r1)
   \<or> (\<exists>res r1 cl1 w1. iteration lib u x r cl w = Break res r1 cl1 w1
         \<and> kept r r1 \<and> err r1 = err r)
   \<or> (\<exists>res r1 cl1 w1. iteration lib u x r cl w = Continue res r1 cl1 w1
         \<and> kept r r1 \<and> err r1 = err r)"
  by (simp add: iteration_def Let_def kept_def split: option.splits Reader.splits)

lemma attempts_keeps:
  "attempts lib u x xs r cl w = (ex, r1, cl1, w1) \<Longrightarrow>
     kept r r1 \<and> (\<forall>res. ex = LoopEnd res \<longrightarrow> err r1 = err r)"
proof (induction xs arbitrary: x r cl w)
  case Nil
  then show ?case
    using iteration_cases[of lib u x r cl w]
    by (subst (asm) attempts.simps) auto
next
  case (Cons y ys)
  from iteration_cases[of lib u x r cl w] Cons.prems show ?case
  proof (elim disjE exE conjE)
    fix res r2 cl2 w2
    assume c: "iteration lib u x r cl w = Continue res r2 cl2 w2"
      and k: "kept r r2" and e: "err r2 = err r"
    with Cons.prems have "attempts lib u y ys r2 cl2 w2 = (ex, r1, cl1, w1)"
      by (subst (asm) attempts.simps) simp
    from Cons.IH[OF this] k e show ?thesis by (auto simp: kept_def)
  qed (subst (asm) attempts.simps, auto)+
qed

lemma Response_result:
  assumes "Response lib r cl w = (res, r1, cl1, w1)"
  shows "(\<forall>e. res = Failed e \<longrightarrow> Resp r1 = Resp r)
       \<and> (\<forall>resp eo. res = Got resp eo \<longrightarrow> eo = None \<and> Resp r1 = Some resp)"
proof (cases "uri r")
  case None
  with assms show ?thesis by (auto simp: Response_def Let_def)
next
  case (Some u)
  define r1a where "r1a = (if RoundTripTimeout cl > 0 \<and> ctx r = Background
                     then r\<lparr>noRetry := True, ctx := WithDeadline (ctx r) (RoundTripTimeout cl)\<rparr>
                     else r)"
  define u1 where "u1 = u\<lparr>RawQuery := valuesEncode lib (params r1a)\<rparr>"
  define r2 where "r2 = r1a\<lparr>uri := Some u1\<rparr>"
  define r3 where "r3 = Headers [''Cache-Control'', ''no-store''] r2"
  define r4 where "r4 = (if traceLvl r3 \<noteq> []
                           then Headers [''X-Log-Token'', traceToken r3]
                                  (Headers [''X-Log-Request'', traceLvl r3] r3)
                           else r3)"
  have e4: "err r4 = err r \<and> Resp r4 = Resp r"
    by (simp add: r4_def r3_def r2_def r1a_def Headers_def)
  show ?thesis
  proof (cases "closed cl \<or> ContainsError (err r2)")
    case True
    with assms Some show ?thesis
      by (auto simp: Response_def Let_def r2_def r1a_def u1_def split: if_splits)
  next
    case False
    then have ne: "Messages (err r) = []"
      by (auto simp: ContainsError_def r2_def r1a_def split: if_splits)
    obtain ex r5 cl5 w5 where
      a: "attempts lib u1 (hd timeouts) (tl timeouts) r4 cl w = (ex, r5, cl5, w5)"
      by (cases "attempts lib u1 (hd timeouts) (tl timeouts) r4 cl w") auto
    from attempts_keeps[OF a] e4
    have k: "Resp r5 = Resp r" "\<forall>x. ex = LoopEnd x \<longrightarrow> err r5 = err r"
      by (auto simp: kept_def)
    have R: "Response lib r cl w =
       (case (ex, r5, cl5, w5) of
          (EarlyReturn, r5, cl1, w1) \<Rightarrow> (Failed (ModelsErr (err r5)), r5, cl1, w1)
        | (LoopEnd (Inl e), r5, cl1, w1) \<Rightarrow>
            (let r6 = r5\<lparr>err := AddError (err r5) (Some (PlainErr e))\<rparr>
             in (Failed (ModelsErr (err r6)), r6, cl1, w1))
        | (LoopEnd (Inr resp), r5, cl1, w1) \<Rightarrow>
            (let r6 = r5\<lparr>Resp := Some resp, eTag := headerGet (respHeader resp) ''ETag''\<rparr>
             in (Got resp (HasError (err r6)), r6, cl1, w1)))"
      using False Some a[symmetric]
      by (simp add: Response_def Let_def r4_def r3_def r2_def r1a_def u1_def)
    show ?thesis
    proof (cases ex)
      case EarlyReturn
      with R assms k show ?thesis by auto
    next
      case (LoopEnd x)
      with R assms k ne show ?thesis
        by (cases x) (auto simp: Let_def HasError_def ContainsError_def)
    qed
  qed
qed

subsection \<open>A closed client\<close>

lemma Response_closed:
  assumes "closed cl"
  shows "\<exists>e r1. Response lib r cl w = (Failed (ModelsErr e), r1, cl, w)
           \<and> last (Messages e)
               = (if uri r = None then ''No URL to talk to'' else ''Connection Closed'')"
  using assms by (auto simp: Response_def Let_def Errorf_def split: option.splits)

text \<open>
  Claim C2, as stated, fails: \<open>Response\<close> tests for a missing URL before it looks at
  the closed flag. On a closed client a descriptor without a URL fails with
  "No URL to talk to" and nothing about the closed connection.
\<close>

theorem C2_counterexample:
  "Close cl0 = Inr cl0closed
   \<and> fst (Response lib0 (Req cl0closed) cl0closed w0)
       = Failed (ModelsErr \<lparr>Model = [], Key = [], Type = ''CLIENT_ERROR'',
                             Messages = [''No URL to talk to''], Code = 0\<rparr>)
   \<and> fst (Do lib0 cd0 (NilVal :: unit Val) (Req cl0closed) cl0closed w0)
       = Some (ModelsErr \<lparr>Model = [], Key = [], Type = ''CLIENT_ERROR'',
                           Messages = [''No URL to talk to''], Code = 0\<rparr>)
   \<and> ''Connection Closed'' \<notin> set [''No URL to talk to'']"
  by (simp add: Close_def cl0_def cl0closed_def Response_def Do_def Headers_def headerAdd_def
        Req_def Errorf_def Let_def)

text \<open>
  Claim C2, amended. After \<open>Close\<close>, \<open>Response\<close> and \<open>Do\<close> on any descriptor
  return the descriptor's error at once, with the client and the world as they were (no
  round trip, no sleep). The last message of that error is "Connection Closed" when the
  descriptor has a URL, and "No URL to talk to" when it has none.
\<close>

theorem C2_closed_fails:
  assumes "Close c0 = Inr cl"
  shows "closed cl
       \<and> (\<exists>e r1. Response lib r cl w = (Failed (ModelsErr e), r1, cl, w)
             \<and> last (Messages e)
                 = (if uri r = None then ''No URL to talk to'' else ''Connection Closed''))
       \<and> (\<exists>e r1. Do lib cd val r cl w = (Some (ModelsErr e), val, r1, cl, w)
             \<and> last (Messages e)
                 = (if uri r = None then ''No URL to talk to'' else ''Connection Closed''))"
proof -
  from assms have c: "closed cl" by (auto simp: Close_def split: Chan.splits)
  define r2 where "r2 = (case val of
       WriterVal _ \<Rightarrow> Headers [''Accept'', ''application/octet-stream'']
                        (Headers [''Accept'', ''application/json''] r)
     | _ \<Rightarrow> Headers [''Accept'', ''application/json''] r)"
  have u: "uri r2 = uri r" by (simp add: r2_def Headers_def split: Val.splits)
  from Response_closed[OF c, of lib r2 w] obtain e r1 where
    "Response lib r2 cl w = (Failed (ModelsErr e), r1, cl, w)"
    "last (Messages e) = (if uri r2 = None then ''No URL to talk to'' else ''Connection Closed'')"
    by blast
  then have "\<exists>e r1. Do lib cd val r cl w = (Some (ModelsErr e), val, r1, cl, w)
             \<and> last (Messages e)
                 = (if uri r = None then ''No URL to talk to'' else ''Connection Closed'')"
    using u by (auto simp: Do_def Let_def r2_def)
  with c Response_closed[OF c, of lib r w] show ?thesis by blast
qed

theorem C2_closed_fails_witness:
  "Close cl0 = Inr cl0closed
   \<and> (\<exists>e r1. Response lib0 (UrlFor lib0 cl0closed [''machines''] (Req cl0closed)) cl0closed w0
                = (Failed (ModelsErr e), r1, cl0closed, w0)
         \<and> last (Messages e) = ''Connection Closed'')"
proof -
  have h: "Close cl0 = Inr cl0closed" by (simp add: Close_def cl0_def cl0closed_def)
  have u: "uri (UrlFor lib0 cl0closed [''machines''] (Req cl0closed)) \<noteq> None"
    by (simp add: UrlFor_def UrlForProxy_def lib0_def)
  from C2_closed_fails
         [OF h, of lib0 "UrlFor lib0 cl0closed [''machines''] (Req cl0closed)" w0 cd0 NilVal] h u
  show ?thesis by auto
qed

subsection \<open>Not modified\<close>

text \<open>
  Claim C8. When \<open>Do\<close> on a fresh descriptor, with a destination that is a writer and a
  seeker, has received a response of status 304, it returns no error and the destination
  has its content as before and its position at the end of that content.
\<close>

theorem C8_not_modified:
  assumes "Resp r = None"
    and "Do lib cd (WriterVal wr) r cl w = (e, v, r4, cl1, w1)"
    and "Resp r4 = Some resp"
    and "StatusCode resp = 304"
    and "seekable wr"
  shows "e = None \<and> v = WriterVal (wr\<lparr>offset := length (content wr)\<rparr>)"
proof -
  define r2 where "r2 = Headers [''Accept'', ''application/octet-stream'']
                        (Headers [''Accept'', ''application/json''] r)"
  have n: "Resp r2 = None" using assms(1) by (simp add: r2_def Headers_def)
  obtain res r3 cl3 w3 where R: "Response lib r2 cl w = (res, r3, cl3, w3)"
    by (cases "Response lib r2 cl w") auto
  note rr = Response_result[OF R]
  show ?thesis
  proof (cases res)
    case (Failed x)
    with R assms(2) have "r4 = r3" by (simp add: Do_def Let_def r2_def)
    with rr Failed n assms(3) show ?thesis by simp
  next
    case (Got resp1 eo)
    with rr have eo: "eo = None" and r3: "Resp r3 = Some resp1" by auto
    from R Got eo assms(2)
    have D: "(e, v, r4, cl1, w1) =
          (case respond lib cd (WriterVal wr) resp1 r3 of (e, v, r4) \<Rightarrow> (e, v, r4, cl3, w3))"
      by (simp add: Do_def Let_def r2_def)
    have k: "Resp (snd (snd (respond lib cd (WriterVal wr) resp1 r3))) = Resp r3"
      by (simp add: respond_def respondError_def respondWriter_def respondValue_def Let_def
            statusError_def split: prod.splits option.splits sum.splits if_splits)
    from D have "r4 = snd (snd (respond lib cd (WriterVal wr) resp1 r3))"
      by (simp split: prod.splits)
    with k r3 assms(3) have "resp1 = resp" by simp
    with D assms(4,5) show ?thesis
      by (simp add: respond_def respondWriter_def seekEnd_def Let_def)
  qed
qed

theorem C8_not_modified_witness:
  "Resp rq0 = None \<and> StatusCode (resp0 304) = 304 \<and> seekable fi0
   \<and> Resp (fst (snd (snd (Do lib0 (cd0 :: unit Codec) (WriterVal fi0) rq0 cl0 w304))))
       = Some (resp0 304)
   \<and> fst (Do lib0 (cd0 :: unit Codec) (WriterVal fi0) rq0 cl0 w304) = None
   \<and> fst (snd (Do lib0 (cd0 :: unit Codec) (WriterVal fi0) rq0 cl0 w304))
        = WriterVal (fi0\<lparr>offset := length (content fi0)\<rparr>)"
proof -
  let ?D = "Do lib0 (cd0 :: unit Codec) (WriterVal fi0) rq0 cl0 w304"
  have h1: "Resp rq0 = None" by (simp add: rq0_def eval_defs)
  have h2: "?D = (fst ?D, fst (snd ?D), fst (snd (snd ?D)), fst (snd (snd (snd ?D))),
                  snd (snd (snd (snd ?D))))"
    by simp
  have h3: "Resp (fst (snd (snd ?D))) = Some (resp0 304)"
    by (simp add: rq0_def w304_def eval_defs attempts.simps)
  have h4: "StatusCode (resp0 304) = 304" by (simp add: resp0_def)
  have h5: "seekable fi0" by (simp add: fi0_def)
  from C8_not_modified[OF h1 h2 h3 h4 h5] h1 h3 h4 h5 show ?thesis by simp
qed

subsection \<open>The validator of a blob download\<close>

lemma GetBlobReq_header:
  "fst (Regenerate cd fi) = None \<Longrightarrow>
     header (GetBlobReq lib cd (FileDest fi) at cl) = []"
  by (cases "Regenerate cd fi")
     (auto simp: GetBlobReq_def Let_def UrlFor_def Req_def split: sum.splits)

text \<open>
  Claim C5 does not hold of the code: \<open>GetBlob\<close> takes the checksum only when
  \<open>Regenerate\<close> returns an error (\<open>err != nil\<close>). For a file whose fingerprint
  \<open>Regenerate\<close> computes without error (checksum \<open>abc\<close>), the one request sent
  carries no \<open>If-None-Match\<close> header.
\<close>

theorem C5_getblob_sends_no_validator:
  "Regenerate (cd0 :: unit Codec) fi0 = (None, ''abc'')
   \<and> events (snd (snd (snd (GetBlob lib0 (cd0 :: unit Codec) (FileDest fi0)
                                [''isos'', ''a.iso''] cl0 w304))))
      = [RoundTrip \<lparr>reqMethod = ''GET'', reqURL = ''https://127.0.0.1:8092/api/v3/isosa.iso'',
                    reqHeader = [(''Accept'', ''application/json''),
                                 (''Accept'', ''application/octet-stream''),
                                 (''Cache-Control'', ''no-store''),
                                 (''Authorization'', ''Basic rocketskates:r0cketsk8ts'')]\<rparr>]"
  by (simp add: w304_def eval_defs attempts.simps)

subsection \<open>The retry loop\<close>

lemmas sample_defs = rqPost_def rqStream_def wFlaky_def w500_def clInfo_def u0_def rq0_def w304_def
  wNoRewind_def wClosing_def wDown_def qPost_def qGet_def uIsos_def respJson_def wJson_def
  cdPartial_def
  Post_def Body_def Meth_def






















subsection \<open>What a retry does to the client\<close>

text \<open>
  Claim C4 does not hold of the code for a request with a body. Before a retry both
  branches of the loop test the closed flag (\<open>iteration_rechecks_closed\<close>), but only the
  branch for \<open>r.body == nil\<close> sets \<open>c.info = nil\<close>. A POST of a byte slice whose
  first attempt fails is retried after one second and succeeds, and the client's cached
  \<open>info\<close> is still the pointer it was; the same run without a body ends with
  \<open>info\<close> nil.
\<close>

theorem C4_info_kept_on_retry_with_body:
  "body rqPost = Some (ReadSeeker ''x'')
   \<and> info clInfo = Some 7
   \<and> transport (wFlaky 1) 0 = (\<lambda>q. Inl ''connection reset'')
   \<and> fst (Response lib0 rqPost clInfo (wFlaky 1)) = Got (resp0 200) None
   \<and> map (\<lambda>ev. case ev of RoundTrip q \<Rightarrow> 0 | Sleep n \<Rightarrow> n)
        (events (snd (snd (snd (Response lib0 rqPost clInfo (wFlaky 1)))))) = [0, 1, 0]
   \<and> info (fst (snd (snd (Response lib0 rqPost clInfo (wFlaky 1))))) = Some 7
   \<and> body rq0 = None
   \<and> info (fst (snd (snd (Response lib0 rq0 clInfo (wFlaky 1))))) = None"
  by (simp add: sample_defs eval_defs attempts.simps)

subsection \<open>The cache of server information\<close>















end
